theory Spec2Isabelle
  imports Complex_Main "HOL-Library.Word" "HOL-Library.Sublist"
begin

section \<open>Python values, exceptions and HTTP data\<close>

text \<open>
  The client (\<^verbatim>\<open>app.py\<close>) is a Streamlit script: three helper functions that wrap one
  HTTP call each, a button handler that appends to \<^verbatim>\<open>st.session_state.uploaded_files\<close>, and
  a render loop over that list. The backend, the \<^verbatim>\<open>requests\<close> library and Streamlit are
  external; they are modelled by what the client observes of them.

  A decoded JSON body is a Python value. Python's \<^verbatim>\<open>None\<close> and JSON's \<^verbatim>\<open>null\<close> are the same
  value, \<open>JNull\<close>. A dict is an association list looked up with \<open>map_of\<close>. Floats are
  carried by their rational value; the only thing the client does with a number is to
  test its truth value.
\<close>

type_synonym bytes = "8 word list"

datatype json =
    JNull
  | JBool bool
  | JInt int
  | JFloat rat
  | JStr string
  | JArr "json list"
  | JObj "(string \<times> json) list"

text \<open>
  The exceptions the script can meet. \<open>RequestException\<close> stands for whatever
  \<^verbatim>\<open>requests.get\<close>/\<^verbatim>\<open>requests.post\<close> raise (timeout, connection refused, ...),
  \<open>JSONDecodeError\<close> for \<^verbatim>\<open>response.json()\<close> on a body that is not JSON,
  \<open>AttributeError\<close> for \<^verbatim>\<open>.get\<close> or \<^verbatim>\<open>.append\<close> on a value that has no such method, and
  \<open>RerunException\<close> is what \<^verbatim>\<open>st.experimental_rerun()\<close> raises to stop the script.
\<close>

datatype exn =
    RequestException string
  | JSONDecodeError string
  | AttributeError string
  | RerunException

fun str_exn :: "exn \<Rightarrow> string" where
  "str_exn (RequestException m) = m"
| "str_exn (JSONDecodeError m) = m"
| "str_exn (AttributeError m) = m"
| "str_exn RerunException = []"

text \<open>Python truth value testing, as used by \<^verbatim>\<open>if result:\<close> and \<^verbatim>\<open>if result.get("success"):\<close>.\<close>

fun truthy :: "json \<Rightarrow> bool" where
  "truthy JNull = False"
| "truthy (JBool b) = b"
| "truthy (JInt i) = (i \<noteq> 0)"
| "truthy (JFloat r) = (r \<noteq> 0)"
| "truthy (JStr s) = (s \<noteq> [])"
| "truthy (JArr xs) = (xs \<noteq> [])"
| "truthy (JObj kvs) = (kvs \<noteq> [])"

text \<open>\<^verbatim>\<open>d.get(k, default)\<close>: only a dict has the method; every other value raises.\<close>

fun dict_get :: "json \<Rightarrow> string \<Rightarrow> json \<Rightarrow> exn + json" where
  "dict_get (JObj kvs) k dflt = Inr (case map_of kvs k of None \<Rightarrow> dflt | Some v \<Rightarrow> v)"
| "dict_get _ k dflt = Inl (AttributeError ''get'')"

text \<open>Streamlit's \<^verbatim>\<open>UploadedFile\<close>: \<^verbatim>\<open>.name\<close>, \<^verbatim>\<open>.getvalue()\<close>, \<^verbatim>\<open>.type\<close>; \<^verbatim>\<open>.size\<close> is the byte count.\<close>

record uploaded_file =
  name :: string
  getvalue :: bytes
  mime :: string

definition size_of :: "uploaded_file \<Rightarrow> int" where
  "size_of f = int (length (getvalue f))"

text \<open>
  The requests the client sends, by endpoint (all under \<^verbatim>\<open>API_BASE_URL\<close>):
  \<^verbatim>\<open>POST /upload\<close> with the file and the two form fields,
  \<^verbatim>\<open>GET /documentation/{file_id}\<close>, \<^verbatim>\<open>GET /status/{file_id}\<close> and
  \<^verbatim>\<open>GET /download/{file_id}?format={format}\<close>. The id is interpolated into the URL as
  whatever Python value the record holds.
\<close>

datatype request =
    Post_upload uploaded_file string string
  | Get_documentation json
  | Get_status json
  | Get_download json string

text \<open>
  A \<^verbatim>\<open>requests.Response\<close>: \<^verbatim>\<open>.status_code\<close>, \<^verbatim>\<open>.content\<close>, and what \<^verbatim>\<open>.json()\<close> gives
  (\<open>None\<close> when the body does not decode, where the method raises).
\<close>

record response =
  status_code :: int
  content :: bytes
  body_json :: "json option"

text \<open>
  The backend is any state machine answering one request at a time: either the call
  raises or a response comes back.
\<close>

type_synonym 'b backend = "'b \<Rightarrow> request \<Rightarrow> (exn + response) \<times> 'b"

section \<open>Streamlit output and the state of a session\<close>

text \<open>
  Every \<^verbatim>\<open>st.*\<close> output call is recorded in order: which call, the text of its f-string with
  \<^verbatim>\<open>{}\<close> for each interpolation, and the interpolated values.
\<close>

datatype st_call =
    Write | Error | Warning | Info | Success | Markdown | Title | Header | Subheader
  | Spinner | Sidebar_title | Sidebar_markdown | Sidebar_info

datatype arg = AStr string | AInt int | AJson json | AUrl request | ABase64 bytes

datatype st_event = Ev st_call string "arg list"

fun call_of :: "st_event \<Rightarrow> st_call" where
  "call_of (Ev c t as) = c"

text \<open>One entry of \<^verbatim>\<open>st.session_state.uploaded_files\<close> (a dict with these five keys).\<close>

record upload_record =
  r_file_id :: json
  r_filename :: string
  r_doc_type :: string
  r_doc_level :: string
  r_upload_time :: rat

text \<open>
  The state the script runs in: the session list (\<open>None\<close> while the key is not yet in
  \<^verbatim>\<open>st.session_state\<close>), the Streamlit output so far, the transcript of HTTP exchanges
  (request and outcome, oldest first), and the backend's own state.
\<close>

record 'b state =
  uploaded_files :: "upload_record list option"
  ui :: "st_event list"
  exchanges :: "(request \<times> (exn + response)) list"
  backend :: 'b

section \<open>Statements, exceptions and try/except\<close>

text \<open>
  A piece of Python is a function from the state to a result and the state after it; the
  result is \<open>Inl e\<close> when exception \<open>e\<close> is propagating. Effects before a raise persist.
\<close>

type_synonym ('b, 'a) py = "'b state \<Rightarrow> (exn + 'a) \<times> 'b state"

definition py_return :: "'a \<Rightarrow> ('b, 'a) py" where
  "py_return v s = (Inr v, s)"

definition py_lift :: "exn + 'a \<Rightarrow> ('b, 'a) py" where
  "py_lift r s = (r, s)"

definition py_bind :: "('b, 'a) py \<Rightarrow> ('a \<Rightarrow> ('b, 'c) py) \<Rightarrow> ('b, 'c) py" where
  "py_bind m f s = (case m s of (Inl e, s') \<Rightarrow> (Inl e, s') | (Inr v, s') \<Rightarrow> f v s')"

definition py_then :: "('b, unit) py \<Rightarrow> ('b, 'c) py \<Rightarrow> ('b, 'c) py" where
  "py_then m k = py_bind m (\<lambda>_. k)"

text \<open>\<^verbatim>\<open>try: body  except Exception as e: handler\<close> (and the bare \<^verbatim>\<open>except:\<close>).\<close>

definition try_except :: "('b, 'a) py \<Rightarrow> (exn \<Rightarrow> ('b, 'a) py) \<Rightarrow> ('b, 'a) py" where
  "try_except body handler s =
     (case body s of (Inl e, s') \<Rightarrow> handler e s' | (Inr v, s') \<Rightarrow> (Inr v, s'))"

definition st :: "st_call \<Rightarrow> string \<Rightarrow> arg list \<Rightarrow> ('b, unit) py" where
  "st c text args s = (Inr (), s\<lparr>ui := ui s @ [Ev c text args]\<rparr>)"

text \<open>\<^verbatim>\<open>requests.post\<close>/\<^verbatim>\<open>requests.get\<close>: one exchange with the backend.\<close>

definition requests :: "'b backend \<Rightarrow> request \<Rightarrow> ('b, response) py" where
  "requests be rq s =
     (case be (backend s) rq of
        (out, b') \<Rightarrow> (out, s\<lparr>exchanges := exchanges s @ [(rq, out)], backend := b'\<rparr>))"

definition response_json :: "response \<Rightarrow> ('b, json) py" where
  "response_json r =
     py_lift (case body_json r of None \<Rightarrow> Inl (JSONDecodeError ''json'') | Some j \<Rightarrow> Inr j)"

section \<open>The helper functions of app.py\<close>

definition upload_and_process_file ::
  "'b backend \<Rightarrow> uploaded_file \<Rightarrow> string \<Rightarrow> string \<Rightarrow> ('b, json) py" where
  "upload_and_process_file be uploaded_file doc_type doc_level =
     try_except
       (py_then (st Write ''Attempting to upload file: {} ({} bytes)''
                   [AStr (name uploaded_file), AInt (size_of uploaded_file)])
       (py_then (st Write ''Document type: {}'' [AStr doc_type])
       (py_then (st Write ''Documentation level selected: {}'' [AStr doc_level])
       (py_bind (requests be (Post_upload uploaded_file doc_type doc_level)) (\<lambda>response.
        py_then (st Write ''Upload response status: {}'' [AInt (status_code response)])
        (if status_code response = 200 then
           py_bind (response_json response) (\<lambda>result.
           py_then (st Write ''Response content: {}'' [AJson result])
          (py_bind (py_lift (dict_get result ''success'' JNull)) (\<lambda>success.
           if truthy success then
             py_bind (py_lift (dict_get result ''file_id'' JNull)) (\<lambda>fid.
             py_then (st Write ''File ID: {}'' [AJson fid])
            (py_return result))
           else
             py_bind (py_lift (dict_get result ''message'' (JStr ''Unknown error''))) (\<lambda>msg.
             py_then (st Error ''Upload failed: {}'' [AJson msg])
            (py_return JNull)))))
         else
           py_then (st Error ''Upload failed with status code {}'' [AInt (status_code response)])
          (py_then (try_except
                      (py_bind (response_json response) (\<lambda>details.
                       st Write ''Error details: {}'' [AJson details]))
                      (\<lambda>_. st Write ''Could not parse error response'' []))
          (py_return JNull))))))))
       (\<lambda>e. py_then (st Error ''Error uploading file: {}'' [AStr (str_exn e)])
            (py_return JNull))"

definition check_documentation_exists :: "'b backend \<Rightarrow> json \<Rightarrow> ('b, bool) py" where
  "check_documentation_exists be file_id =
     try_except
       (py_then (st Write ''Checking if documentation exists for file ID: {}'' [AJson file_id])
       (py_bind (requests be (Get_documentation file_id)) (\<lambda>response.
        py_then (st Write ''Documentation check status code: {}'' [AInt (status_code response)])
        (if status_code response = 200 then
           py_then (st Write ''Documentation exists!'' [])
          (py_return True)
         else
           py_then (st Write ''Documentation not ready yet. Status: {}''
                      [AInt (status_code response)])
          (py_then (try_except
                      (py_bind (requests be (Get_status file_id)) (\<lambda>status_response.
                       if status_code status_response = 200 then
                         py_bind (response_json status_response) (\<lambda>status_data.
                         py_bind (py_lift (dict_get status_data ''status'' JNull)) (\<lambda>v.
                         py_then (st Write ''Processing status: {}'' [AJson v])
                        (py_bind (py_lift (dict_get status_data ''progress'' JNull)) (\<lambda>v.
                         py_then (st Write ''Progress: {}%'' [AJson v])
                        (py_bind (py_lift (dict_get status_data ''current_stage'' JNull)) (\<lambda>v.
                         py_then (st Write ''Current stage: {}'' [AJson v])
                        (py_bind (py_lift (dict_get status_data ''error'' JNull)) (\<lambda>err.
                         if truthy err then
                           py_bind (py_lift (dict_get status_data ''error'' JNull)) (\<lambda>v.
                           st Error ''Processing error: {}'' [AJson v])
                         else py_return ()))))))))
                       else py_return ()))
                      (\<lambda>status_err.
                         st Write ''Could not get processing status: {}''
                           [AStr (str_exn status_err)]))
          (py_return False))))))
       (\<lambda>e. py_then (st Write ''Error checking documentation: {}'' [AStr (str_exn e)])
            (py_return False))"

definition get_pdf_content :: "'b backend \<Rightarrow> json \<Rightarrow> ('b, bytes option) py" where
  "get_pdf_content be file_id =
     try_except
       (py_bind (requests be (Get_download file_id ''pdf'')) (\<lambda>response.
        if status_code response = 200 then py_return (Some (content response))
        else py_return None))
       (\<lambda>_. py_return None)"

definition get_document_download_url :: "json \<Rightarrow> string \<Rightarrow> request" where
  "get_document_download_url file_id format = Get_download file_id format"

text \<open>\<^verbatim>\<open>display_pdf\<close> embeds the base64 text of the bytes in an iframe.\<close>

definition display_pdf :: "bytes \<Rightarrow> ('b, unit) py" where
  "display_pdf pdf_content =
     st Markdown ''<iframe src=data:application/pdf;base64,{} class=pdf-viewer></iframe>''
       [ABase64 pdf_content]"

definition create_download_button :: "json \<Rightarrow> string \<Rightarrow> string \<Rightarrow> ('b, unit) py" where
  "create_download_button file_id format label =
     st Markdown ''<div class=download-btn><a href={} target=_blank><button>{}</button></a></div>''
       [AUrl (get_document_download_url file_id format), AStr label]"

section \<open>The script: widgets, the Process File button, the render loop\<close>

text \<open>
  What the user has set when a run of the script starts. A \<^verbatim>\<open>selectbox\<close> returns one of
  its options, so the two selections are values of closed types; \<^verbatim>\<open>file_uploader\<close>
  returns \<^verbatim>\<open>None\<close> or the chosen file (its \<^verbatim>\<open>type\<close> option limits the extensions offered, the
  content is not looked at); a button is true in the run its click triggered.
  \<open>clock\<close> is what \<^verbatim>\<open>time.time()\<close> reads during the run.
\<close>

datatype doc_type_option = BRD | SOW | FRD

datatype doc_level_option = Simple | Intermediate | Advanced

fun doc_type_str :: "doc_type_option \<Rightarrow> string" where
  "doc_type_str BRD = ''BRD''"
| "doc_type_str SOW = ''SOW''"
| "doc_type_str FRD = ''FRD''"

fun doc_level_str :: "doc_level_option \<Rightarrow> string" where
  "doc_level_str Simple = ''Simple''"
| "doc_level_str Intermediate = ''Intermediate''"
| "doc_level_str Advanced = ''Advanced''"

record user_input =
  sel_doc_type :: doc_type_option
  sel_file :: "uploaded_file option"
  sel_doc_level :: doc_level_option
  process_clicked :: bool
  refresh_clicked :: bool
  clock :: rat

text \<open>\<^verbatim>\<open>if "uploaded_files" not in st.session_state: st.session_state.uploaded_files = []\<close>\<close>

definition init_session_state :: "('b, unit) py" where
  "init_session_state s =
     (case uploaded_files s of
        None \<Rightarrow> (Inr (), s\<lparr>uploaded_files := Some []\<rparr>)
      | Some files \<Rightarrow> (Inr (), s))"

text \<open>Reading \<^verbatim>\<open>st.session_state.uploaded_files\<close> raises while the key is absent.\<close>

definition get_uploaded_files :: "('b, upload_record list) py" where
  "get_uploaded_files s =
     (case uploaded_files s of
        None \<Rightarrow> (Inl (AttributeError ''uploaded_files''), s)
      | Some files \<Rightarrow> (Inr files, s))"

text \<open>\<^verbatim>\<open>st.session_state.uploaded_files.append(record)\<close>\<close>

definition append_uploaded_file :: "upload_record \<Rightarrow> ('b, unit) py" where
  "append_uploaded_file r =
     py_bind get_uploaded_files (\<lambda>files s.
       (Inr (), s\<lparr>uploaded_files := Some (files @ [r])\<rparr>))"

definition experimental_rerun :: "('b, unit) py" where
  "experimental_rerun s = (Inl RerunException, s)"

definition sidebar :: "user_input \<Rightarrow> ('b, unit) py" where
  "sidebar inp =
     py_then (st Sidebar_title ''Upload Media'' [])
    (py_then (st Sidebar_markdown
                ''Upload audio or video files to generate project documentation.'' [])
    (py_then (case sel_doc_type inp of
                BRD \<Rightarrow> st Sidebar_info ''Business Requirements Document (BRD)'' []
              | SOW \<Rightarrow> st Sidebar_info ''Statement of Work (SOW)'' []
              | FRD \<Rightarrow> st Sidebar_info ''Functional Requirements Document (FRD)'' [])
    (case sel_file inp of
       None \<Rightarrow> py_return ()
     | Some uploaded_file \<Rightarrow>
         py_then (st Sidebar_markdown ''### Select Documentation Level'' [])
                 (case sel_doc_level inp of
                    Simple \<Rightarrow> st Sidebar_info ''Simple'' []
                  | Intermediate \<Rightarrow> st Sidebar_info ''Intermediate'' []
                  | Advanced \<Rightarrow> st Sidebar_info ''Advanced'' []))))"

definition process_file_button :: "'b backend \<Rightarrow> user_input \<Rightarrow> ('b, unit) py" where
  "process_file_button be inp =
     (case sel_file inp of
        None \<Rightarrow> py_return ()
      | Some uploaded_file \<Rightarrow>
          if process_clicked inp then
            py_then (st Spinner ''Uploading and processing file...'' [])
           (py_bind (upload_and_process_file be uploaded_file
                       (doc_type_str (sel_doc_type inp)) (doc_level_str (sel_doc_level inp)))
              (\<lambda>result.
                if truthy result then
                  py_bind (py_lift (dict_get result ''file_id'' JNull)) (\<lambda>file_id.
                  py_then (append_uploaded_file
                             \<lparr>r_file_id = file_id,
                              r_filename = name uploaded_file,
                              r_doc_type = doc_type_str (sel_doc_type inp),
                              r_doc_level = doc_level_str (sel_doc_level inp),
                              r_upload_time = clock inp\<rparr>)
                          (st Success ''File uploaded successfully! File ID: {}''
                             [AJson file_id]))
                else py_return ()))
          else py_return ())"

text \<open>The body of \<^verbatim>\<open>for file_info in st.session_state.uploaded_files\<close>.\<close>

definition pdf_not_available :: "('b, unit) py" where
  "pdf_not_available = st Warning ''PDF content not available. Try refreshing.'' []"

definition render_file :: "'b backend \<Rightarrow> upload_record \<Rightarrow> ('b, unit) py" where
  "render_file be file_info =
     py_then (st Subheader ''File: {}'' [AStr (r_filename file_info)])
    (py_then (st Markdown ''File ID: `{}`'' [AJson (r_file_id file_info)])
    (py_bind (check_documentation_exists be (r_file_id file_info)) (\<lambda>ready.
     if ready then
       py_bind (get_pdf_content be (r_file_id file_info)) (\<lambda>pdf_content.
         case pdf_content of
           None \<Rightarrow> pdf_not_available
         | Some bs \<Rightarrow>
             if bs \<noteq> [] then
               py_then (create_download_button (r_file_id file_info) ''pdf'' ''Download PDF'')
              (py_then (create_download_button (r_file_id file_info) ''docx'' ''Download DOCX'')
              (py_then (create_download_button (r_file_id file_info) ''html'' ''Download HTML'')
              (py_then (create_download_button (r_file_id file_info) ''json'' ''Download JSON'')
              (py_then (st Markdown ''### PDF Preview'' [])
              (display_pdf bs)))))
             else pdf_not_available)
     else
       py_then (st Spinner ''Documentation is being generated...'' [])
               (st Info ''Documentation is not ready yet. Please wait or refresh.'' []))))"

fun render_files :: "'b backend \<Rightarrow> upload_record list \<Rightarrow> ('b, unit) py" where
  "render_files be [] = py_return ()"
| "render_files be (file_info # rest) =
     py_then (render_file be file_info) (render_files be rest)"

definition generated_documentation :: "'b backend \<Rightarrow> user_input \<Rightarrow> ('b, unit) py" where
  "generated_documentation be inp =
     py_then (st Header ''Generated Documentation'' [])
    (py_bind get_uploaded_files (\<lambda>files.
     if files = [] then
       st Info ''No files have been uploaded yet. Upload a file to get started.'' []
     else
       py_then (if refresh_clicked inp then experimental_rerun else py_return ())
               (render_files be files)))"

text \<open>
  One run of the script, top to bottom. (\<^verbatim>\<open>st.set_page_config\<close> produces no output; the
  style sheet is one markdown call.)
\<close>

definition script :: "'b backend \<Rightarrow> user_input \<Rightarrow> ('b, unit) py" where
  "script be inp =
     py_then (st Markdown ''<style>...</style>'' [])
    (py_then init_session_state
    (py_then (st Title ''CrewAI Project Documentation Generator'' [])
    (py_then (st Markdown ''---'' [])
    (py_then (sidebar inp)
    (py_then (process_file_button be inp)
    (generated_documentation be inp))))))"

text \<open>
  A session is a sequence of runs, one per user interaction (a rerun is one more run),
  each starting in the state the previous one left. Successive polls of one id are
  successive calls of \<open>check_documentation_exists\<close>.
\<close>

fun session :: "'b backend \<Rightarrow> user_input list \<Rightarrow> 'b state \<Rightarrow> 'b state" where
  "session be [] s = s"
| "session be (inp # inps) s = session be inps (snd (script be inp s))"

fun polls :: "'b backend \<Rightarrow> json \<Rightarrow> nat \<Rightarrow> 'b state \<Rightarrow> (exn + bool) list \<times> 'b state" where
  "polls be file_id 0 s = ([], s)"
| "polls be file_id (Suc n) s =
     (case check_documentation_exists be file_id s of
        (r, s') \<Rightarrow> (case polls be file_id n s' of (rs, s'') \<Rightarrow> (r # rs, s'')))"

section \<open>Observations on a run and sample inputs\<close>

text \<open>An outcome of the existence check counts as ready when it is a response with status 200.\<close>

definition ok_200 :: "exn + response \<Rightarrow> bool" where
  "ok_200 out = (case out of Inl e \<Rightarrow> False | Inr r \<Rightarrow> status_code r = 200)"

text \<open>The existence checks in a transcript: the id asked about and the outcome, in order.\<close>

fun documentation_checks ::
  "(request \<times> (exn + response)) list \<Rightarrow> (json \<times> (exn + response)) list" where
  "documentation_checks [] = []"
| "documentation_checks ((Get_documentation fid, out) # tr) = (fid, out) # documentation_checks tr"
| "documentation_checks (x # tr) = documentation_checks tr"

text \<open>The session list, empty while the key is absent.\<close>

definition files_of :: "'b state \<Rightarrow> upload_record list" where
  "files_of s = (case uploaded_files s of None \<Rightarrow> [] | Some files \<Rightarrow> files)"

text \<open>
  A backend that plays a given list of outcomes, one per request, and refuses the
  connection once the list is used up.
\<close>

fun scripted :: "(exn + response) list backend" where
  "scripted [] rq = (Inl (RequestException ''connection refused''), [])"
| "scripted (out # rest) rq = (out, rest)"

definition demo_file :: uploaded_file where
  "demo_file = \<lparr>name = ''demo.mp3'', getvalue = [73, 68, 51], mime = ''audio/mpeg''\<rparr>"

definition demo_input :: user_input where
  "demo_input = \<lparr>sel_doc_type = SOW, sel_file = Some demo_file, sel_doc_level = Advanced,
                  process_clicked = True, refresh_clicked = False, clock = 0\<rparr>"

text \<open>A session whose list has been initialised and is still empty.\<close>

definition started :: "'b \<Rightarrow> 'b state" where
  "started b = \<lparr>uploaded_files = Some [], ui = [], exchanges = [], backend = b\<rparr>"

text \<open>
  The ways a submission fails, read off the outcome of the upload request: the call
  raised; the status is not 200; the body is not JSON or not an object; the object's
  \<^verbatim>\<open>success\<close> entry is missing or false.
\<close>

fun failed_submission :: "exn + response \<Rightarrow> bool" where
  "failed_submission (Inl e) = True"
| "failed_submission (Inr r) =
     (status_code r \<noteq> 200 \<or>
      (case body_json r of
         None \<Rightarrow> True
       | Some (JObj kvs) \<Rightarrow>
           (case map_of kvs ''success'' of None \<Rightarrow> True | Some flag \<Rightarrow> \<not> truthy flag)
       | Some other \<Rightarrow> True))"

text \<open>A file no media filter would let through, and a backend answer that accepts an upload.\<close>

definition empty_text_file :: uploaded_file where
  "empty_text_file = \<lparr>name = ''notes.txt'', getvalue = [], mime = ''text/plain''\<rparr>"

definition accepted :: response where
  "accepted = \<lparr>status_code = 200, content = [],
                body_json = Some (JObj [(''success'', JBool True), (''file_id'', JStr ''abc123'')])\<rparr>"

definition demo_record :: upload_record where
  "demo_record = \<lparr>r_file_id = JStr ''abc123'', r_filename = ''demo.mp3'', r_doc_type = ''SOW'',
                   r_doc_level = ''Advanced'', r_upload_time = 0\<rparr>"

text \<open>
  The ways the progress query fails, read off the outcome of the status request: the call
  raised; the status is not 200; the 200 body is not JSON or not an object.
\<close>

fun probe_failed :: "exn + response \<Rightarrow> bool" where
  "probe_failed (Inl e) = True"
| "probe_failed (Inr r) =
     (status_code r \<noteq> 200 \<or>
      (case body_json r of None \<Rightarrow> True | Some (JObj kvs) \<Rightarrow> False | Some other \<Rightarrow> True))"

text \<open>The list after is the list before with at most one record added at the end.\<close>

definition appended :: "upload_record list \<Rightarrow> upload_record list \<Rightarrow> bool" where
  "appended old new = (prefix old new \<and> length new \<le> Suc (length old))"

section \<open>What each helper does to the state\<close>

lemmas py_defs = py_return_def py_lift_def py_bind_def py_then_def try_except_def st_def
  requests_def response_json_def

lemma py_bind_fst_snd:
  "py_bind m f s = (case fst (m s) of Inl e \<Rightarrow> (Inl e, snd (m s)) | Inr v \<Rightarrow> f v (snd (m s)))"
  by (simp add: py_bind_def split: prod.split sum.split)

lemmas run_defs = py_return_def py_lift_def py_bind_fst_snd py_then_def st_def
  append_uploaded_file_def get_uploaded_files_def

lemma upload_files:
  "uploaded_files (snd (upload_and_process_file be f dt dl s)) = uploaded_files s"
  by (simp add: upload_and_process_file_def py_defs
      split: prod.split sum.split option.split json.split)

lemma upload_exchanges:
  "exchanges (snd (upload_and_process_file be f dt dl s)) =
     exchanges s @ [(Post_upload f dt dl, fst (be (backend s) (Post_upload f dt dl)))]"
  by (simp add: upload_and_process_file_def py_defs
      split: prod.split sum.split option.split json.split)

lemma upload_result:
  "fst (upload_and_process_file be f dt dl s) =
     Inr (case fst (be (backend s) (Post_upload f dt dl)) of
            Inl e \<Rightarrow> JNull
          | Inr resp \<Rightarrow>
              if status_code resp = 200 then
                (case body_json resp of
                   Some (JObj kvs) \<Rightarrow>
                     (case map_of kvs ''success'' of
                        Some v \<Rightarrow> if truthy v then JObj kvs else JNull
                      | None \<Rightarrow> JNull)
                 | _ \<Rightarrow> JNull)
              else JNull)"
  by (simp add: upload_and_process_file_def py_defs
      split: prod.split sum.split option.split json.split)

lemma check_files:
  "uploaded_files (snd (check_documentation_exists be fid s)) = uploaded_files s"
  by (simp add: check_documentation_exists_def py_defs
      split: prod.split sum.split option.split json.split)

lemma check_result:
  "fst (check_documentation_exists be fid s) =
     Inr (ok_200 (fst (be (backend s) (Get_documentation fid))))"
  by (simp add: check_documentation_exists_def py_defs ok_200_def
      split: prod.split sum.split option.split json.split)

lemma check_exchanges:
  "exchanges (snd (check_documentation_exists be fid s)) =
     exchanges s @ (Get_documentation fid, fst (be (backend s) (Get_documentation fid))) #
       (case fst (be (backend s) (Get_documentation fid)) of
          Inl e \<Rightarrow> []
        | Inr r \<Rightarrow> if status_code r = 200 then []
                  else [(Get_status fid,
                         fst (be (snd (be (backend s) (Get_documentation fid))) (Get_status fid)))])"
  by (simp add: check_documentation_exists_def py_defs
      split: prod.split sum.split option.split json.split)

lemma pdf_files:
  "uploaded_files (snd (get_pdf_content be fid s)) = uploaded_files s"
  by (simp add: get_pdf_content_def py_defs split: prod.split sum.split)

lemma pdf_ui:
  "ui (snd (get_pdf_content be fid s)) = ui s"
  by (simp add: get_pdf_content_def py_defs split: prod.split sum.split)

lemma pdf_exchanges:
  "exchanges (snd (get_pdf_content be fid s)) =
     exchanges s @ [(Get_download fid ''pdf'', fst (be (backend s) (Get_download fid ''pdf'')))]"
  by (simp add: get_pdf_content_def py_defs split: prod.split sum.split)

lemma pdf_result:
  "fst (get_pdf_content be fid s) =
     Inr (case fst (be (backend s) (Get_download fid ''pdf'')) of
            Inl e \<Rightarrow> None
          | Inr r \<Rightarrow> if status_code r = 200 then Some (content r) else None)"
  by (simp add: get_pdf_content_def py_defs split: prod.split sum.split)

section \<open>Submission\<close>

text \<open>
  C1 (as amended). When the Process File button is clicked with a file chosen and the
  backend answers the upload with status 200 and a JSON object whose \<^verbatim>\<open>success\<close> entry is
  true (any true-valued flag), the handler appends exactly one record to the session list:
  the list after is the list before followed by that record. The record's \<^verbatim>\<open>file_id\<close> is
  the \<^verbatim>\<open>file_id\<close> entry of the response taken as it is (\<^verbatim>\<open>None\<close> when there is none); the
  client does not check it, so it is non-empty exactly when the backend sent a non-empty one.
\<close>

theorem process_file_appends_record:
  assumes "sel_file inp = Some f" and "process_clicked inp"
    and "uploaded_files s = Some files"
    and "fst (be (backend s) (Post_upload f (doc_type_str (sel_doc_type inp))
                                 (doc_level_str (sel_doc_level inp)))) = Inr resp"
    and "status_code resp = 200" and "body_json resp = Some (JObj kvs)"
    and "map_of kvs ''success'' = Some flag" and "truthy flag"
  shows "uploaded_files (snd (process_file_button be inp s)) =
           Some (files @
             [\<lparr>r_file_id = (case map_of kvs ''file_id'' of None \<Rightarrow> JNull | Some v \<Rightarrow> v),
               r_filename = name f,
               r_doc_type = doc_type_str (sel_doc_type inp),
               r_doc_level = doc_level_str (sel_doc_level inp),
               r_upload_time = clock inp\<rparr>])
         \<and> length (files_of (snd (process_file_button be inp s))) = Suc (length files)
         \<and> fst (process_file_button be inp s) = Inr ()"
proof -
  have ne: "kvs \<noteq> []" using assms(7) by auto
  show ?thesis
    using assms ne
    by (simp add: process_file_button_def run_defs upload_result upload_files files_of_def)
qed

theorem process_file_appends_record_witness:
  "uploaded_files (snd (process_file_button scripted demo_input
      (started [Inr \<lparr>status_code = 200, content = [],
                     body_json = Some (JObj [(''success'', JBool True),
                                             (''file_id'', JStr ''abc123'')])\<rparr>]))) =
   Some [\<lparr>r_file_id = JStr ''abc123'', r_filename = ''demo.mp3'', r_doc_type = ''SOW'',
          r_doc_level = ''Advanced'', r_upload_time = 0\<rparr>]"
  using process_file_appends_record [of demo_input demo_file
      "started [Inr \<lparr>status_code = 200, content = [],
                     body_json = Some (JObj [(''success'', JBool True),
                                             (''file_id'', JStr ''abc123'')])\<rparr>]"
      "[]" scripted
      "\<lparr>status_code = 200, content = [],
        body_json = Some (JObj [(''success'', JBool True), (''file_id'', JStr ''abc123'')])\<rparr>"
      "[(''success'', JBool True), (''file_id'', JStr ''abc123'')]" "JBool True"]
  by (simp add: demo_input_def demo_file_def started_def)

text \<open>
  The claim as written fails when the backend reports success with an empty
  \<^verbatim>\<open>file_id\<close>: the record is appended all the same, with the empty string as its id.
\<close>

theorem empty_file_id_counterexample:
  "uploaded_files (snd (process_file_button scripted demo_input
      (started [Inr \<lparr>status_code = 200, content = [],
                     body_json = Some (JObj [(''success'', JBool True),
                                             (''file_id'', JStr [])])\<rparr>]))) =
   Some [\<lparr>r_file_id = JStr [], r_filename = ''demo.mp3'', r_doc_type = ''SOW'',
          r_doc_level = ''Advanced'', r_upload_time = 0\<rparr>]"
  by (simp add: process_file_button_def run_defs upload_result upload_files
        demo_input_def demo_file_def started_def)

text \<open>
  C2. When the submission fails (the upload call raises, or the status is not 200, or the
  200 body is malformed or carries no true \<^verbatim>\<open>success\<close> flag), \<open>upload_and_process_file\<close>
  returns \<^verbatim>\<open>None\<close>, and the button handler creates no record: the session list after the
  click is the list before it.
\<close>

theorem failed_submission_no_record:
  assumes "sel_file inp = Some f" and "process_clicked inp"
    and "failed_submission (fst (be (backend s) (Post_upload f (doc_type_str (sel_doc_type inp))
                                 (doc_level_str (sel_doc_level inp)))))"
  shows "fst (upload_and_process_file be f (doc_type_str (sel_doc_type inp))
                (doc_level_str (sel_doc_level inp)) s) = Inr JNull
         \<and> uploaded_files (snd (process_file_button be inp s)) = uploaded_files s
         \<and> fst (process_file_button be inp s) = Inr ()"
proof -
  let ?dt = "doc_type_str (sel_doc_type inp)" and ?dl = "doc_level_str (sel_doc_level inp)"
  have r: "fst (upload_and_process_file be f ?dt ?dl s') = Inr JNull"
    if "backend s' = backend s" for s' :: "'a state"
    using assms(3) that
    by (cases "fst (be (backend s) (Post_upload f ?dt ?dl))")
       (auto simp: upload_result split: option.split json.split)
  show ?thesis
    using assms(1,2) r
    by (simp add: process_file_button_def run_defs upload_files)
qed

theorem failed_submission_no_record_witness:
  "failed_submission (Inr \<lparr>status_code = 500, content = [], body_json = None\<rparr>)
   \<and> fst (upload_and_process_file scripted demo_file ''SOW'' ''Advanced''
        (started [Inr \<lparr>status_code = 500, content = [], body_json = None\<rparr>])) = Inr JNull
   \<and> uploaded_files (snd (process_file_button scripted demo_input
        (started [Inr \<lparr>status_code = 500, content = [], body_json = None\<rparr>]))) = Some []"
  using failed_submission_no_record [of demo_input demo_file scripted
      "started [Inr \<lparr>status_code = 500, content = [], body_json = None\<rparr>]"]
  by (simp add: demo_input_def started_def)

section \<open>Status tracking\<close>

text \<open>
  C3. \<open>check_documentation_exists\<close> returns \<^verbatim>\<open>True\<close> exactly when its GET of
  \<^verbatim>\<open>/documentation/{file_id}\<close> comes back with status 200, and \<^verbatim>\<open>False\<close> for every other
  status and when the call raises; it makes that existence check once.
\<close>

theorem check_documentation_exists_iff_200:
  "fst (check_documentation_exists be fid s) =
     Inr (ok_200 (fst (be (backend s) (Get_documentation fid))))
   \<and> documentation_checks
        (drop (length (exchanges s)) (exchanges (snd (check_documentation_exists be fid s)))) =
      [(fid, fst (be (backend s) (Get_documentation fid)))]"
  by (simp add: check_result check_exchanges split: sum.split)

section \<open>Retrieval\<close>



section \<open>Errors never leave an operation\<close>

text \<open>
  C9. Whatever the backend does (any response, or a raised call), each of
  \<open>upload_and_process_file\<close>, \<open>check_documentation_exists\<close> and \<open>get_pdf_content\<close> returns a
  value: no exception propagates out of them, for every input and every state.
\<close>

theorem operations_never_raise:
  "(\<exists>v. fst (upload_and_process_file be f dt dl s) = Inr v)
   \<and> (\<exists>b. fst (check_documentation_exists be fid s) = Inr b)
   \<and> (\<exists>c. fst (get_pdf_content be fid s) = Inr c)"
  by (simp add: upload_result check_result pdf_result)

section \<open>Submission takes its inputs as they come\<close>

lemma button_exchanges:
  "exchanges (snd (process_file_button be inp s)) =
     exchanges s @
       (case sel_file inp of
          None \<Rightarrow> []
        | Some f \<Rightarrow>
            if process_clicked inp then
              [(Post_upload f (doc_type_str (sel_doc_type inp)) (doc_level_str (sel_doc_level inp)),
                fst (be (backend s) (Post_upload f (doc_type_str (sel_doc_type inp))
                                       (doc_level_str (sel_doc_level inp)))))]
            else [])"
  by (simp add: process_file_button_def run_defs upload_result upload_files upload_exchanges
      split: option.split sum.split json.split)

text \<open>
  C5 (as amended). \<open>upload_and_process_file\<close> checks nothing about its inputs: for every
  file, document type and level it sends one \<^verbatim>\<open>POST /upload\<close> carrying exactly those values,
  and it returns \<^verbatim>\<open>None\<close> exactly when the backend's answer is a failure. The button handler
  sends nothing unless a file is chosen and the button clicked, and the type and level it
  passes are members of the two enumerations, because the selection widgets offer no other
  value.
\<close>

theorem upload_sends_whatever_it_is_given:
  "exchanges (snd (upload_and_process_file be f dt dl s)) =
     exchanges s @ [(Post_upload f dt dl, fst (be (backend s) (Post_upload f dt dl)))]
   \<and> (fst (upload_and_process_file be f dt dl s) = Inr JNull) =
       failed_submission (fst (be (backend s) (Post_upload f dt dl)))
   \<and> exchanges (snd (process_file_button be inp s)) =
       exchanges s @
         (case sel_file inp of
            None \<Rightarrow> []
          | Some f \<Rightarrow>
              if process_clicked inp then
                [(Post_upload f (doc_type_str (sel_doc_type inp)) (doc_level_str (sel_doc_level inp)),
                  fst (be (backend s) (Post_upload f (doc_type_str (sel_doc_type inp))
                                         (doc_level_str (sel_doc_level inp)))))]
              else [])
   \<and> doc_type_str (sel_doc_type inp) \<in> set [''BRD'', ''SOW'', ''FRD'']
   \<and> doc_level_str (sel_doc_level inp) \<in> set [''Simple'', ''Intermediate'', ''Advanced'']"
proof -
  have "(fst (upload_and_process_file be f dt dl s) = Inr JNull) =
       failed_submission (fst (be (backend s) (Post_upload f dt dl)))"
    by (cases "fst (be (backend s) (Post_upload f dt dl))")
       (auto simp: upload_result split: option.split json.split)
  moreover have "doc_type_str (sel_doc_type inp) \<in> set [''BRD'', ''SOW'', ''FRD'']"
    by (cases "sel_doc_type inp") simp_all
  moreover have "doc_level_str (sel_doc_level inp) \<in> set [''Simple'', ''Intermediate'', ''Advanced'']"
    by (cases "sel_doc_level inp") simp_all
  ultimately show ?thesis
    by (simp only: upload_exchanges button_exchanges simp_thms)
qed

text \<open>
  The claim as written fails: an empty text file with type \<^verbatim>\<open>XYZ\<close> and level \<^verbatim>\<open>Expert\<close> is
  posted to the backend and the call succeeds when the backend accepts it; and when the
  file chosen in the uploader is an empty \<^verbatim>\<open>demo.mp3\<close>, the handler records it.
\<close>

theorem no_validation_counterexample:
  "fst (upload_and_process_file scripted empty_text_file ''XYZ'' ''Expert''
          (started [Inr accepted])) = Inr (JObj [(''success'', JBool True), (''file_id'', JStr ''abc123'')])
   \<and> exchanges (snd (upload_and_process_file scripted empty_text_file ''XYZ'' ''Expert''
          (started [Inr accepted]))) = [(Post_upload empty_text_file ''XYZ'' ''Expert'', Inr accepted)]
   \<and> uploaded_files (snd (process_file_button scripted
          (demo_input\<lparr>sel_file := Some (demo_file\<lparr>getvalue := []\<rparr>)\<rparr>)
          (started [Inr accepted]))) =
       Some [\<lparr>r_file_id = JStr ''abc123'', r_filename = ''demo.mp3'', r_doc_type = ''SOW'',
              r_doc_level = ''Advanced'', r_upload_time = 0\<rparr>]"
  by (simp add: process_file_button_def run_defs upload_result upload_files upload_exchanges
        demo_input_def demo_file_def empty_text_file_def started_def accepted_def)

section \<open>Polling\<close>

lemma documentation_checks_append:
  "documentation_checks (a @ b) = documentation_checks a @ documentation_checks b"
  by (induction a rule: documentation_checks.induct) simp_all

lemma check_trace:
  "\<exists>tr. exchanges (snd (check_documentation_exists be fid s)) = exchanges s @ tr \<and>
        documentation_checks tr = [(fid, fst (be (backend s) (Get_documentation fid)))]"
  by (simp add: check_exchanges split: sum.split)

lemma polls_trace:
  "\<exists>tr. exchanges (snd (polls be fid n s)) = exchanges s @ tr \<and>
        fst (polls be fid n s) = map (\<lambda>c. Inr (ok_200 (snd c))) (documentation_checks tr) \<and>
        map fst (documentation_checks tr) = replicate n fid"
proof (induction n arbitrary: s)
  case 0
  show ?case by simp
next
  case (Suc n)
  obtain r s1 where c: "check_documentation_exists be fid s = (r, s1)"
    by (cases "check_documentation_exists be fid s")
  obtain rs s2 where p: "polls be fid n s1 = (rs, s2)"
    by (cases "polls be fid n s1")
  from check_trace [of be fid s] c obtain tr1 where
    t1: "exchanges s1 = exchanges s @ tr1"
        "documentation_checks tr1 = [(fid, fst (be (backend s) (Get_documentation fid)))]"
    by auto
  from Suc.IH [of s1] p obtain tr2 where
    t2: "exchanges s2 = exchanges s1 @ tr2"
        "rs = map (\<lambda>c. Inr (ok_200 (snd c))) (documentation_checks tr2)"
        "map fst (documentation_checks tr2) = replicate n fid"
    by auto
  have r: "r = Inr (ok_200 (fst (be (backend s) (Get_documentation fid))))"
    using check_result [of be fid s] c by simp
  have "exchanges (snd (polls be fid (Suc n) s)) = exchanges s @ (tr1 @ tr2)"
    using c p t1 t2 by simp
  moreover have "fst (polls be fid (Suc n) s) =
      map (\<lambda>c. Inr (ok_200 (snd c))) (documentation_checks (tr1 @ tr2))"
    using c p t1 t2 r by (simp add: documentation_checks_append)
  moreover have "map fst (documentation_checks (tr1 @ tr2)) = replicate (Suc n) fid"
    using t1 t2 by (simp add: documentation_checks_append)
  ultimately show ?case by blast
qed

text \<open>
  C6 (as amended). Over any number of successive polls of one id, the answer of each poll
  is \<^verbatim>\<open>True\<close> exactly when that poll's own existence check came back with status 200, and
  each poll makes one such check. So the polls answer \<^verbatim>\<open>False\<close> up to the first 200 and
  \<^verbatim>\<open>True\<close> at it, and afterwards they stay \<^verbatim>\<open>True\<close> for as long as the endpoint keeps
  answering 200: the client keeps no memory of an earlier \<^verbatim>\<open>True\<close>.
\<close>

theorem polls_follow_endpoint:
  "fst (polls be fid n s) =
     map (\<lambda>c. Inr (ok_200 (snd c)))
       (documentation_checks (drop (length (exchanges s)) (exchanges (snd (polls be fid n s)))))
   \<and> map fst (documentation_checks (drop (length (exchanges s)) (exchanges (snd (polls be fid n s)))))
       = replicate n fid"
proof -
  from polls_trace [of be fid n s] obtain tr where
    "exchanges (snd (polls be fid n s)) = exchanges s @ tr"
    "fst (polls be fid n s) = map (\<lambda>c. Inr (ok_200 (snd c))) (documentation_checks tr)"
    "map fst (documentation_checks tr) = replicate n fid"
    by blast
  then show ?thesis by simp
qed

text \<open>
  The claim as written fails when the endpoint answers 404, then 200, then 404 again
  (each 404 followed by a refused status query): the third poll reverts to \<^verbatim>\<open>False\<close>.
\<close>

theorem readiness_reverts_counterexample:
  "fst (polls scripted (JStr ''abc123'') 3
         (started [Inr \<lparr>status_code = 404, content = [], body_json = None\<rparr>,
                   Inr \<lparr>status_code = 503, content = [], body_json = None\<rparr>,
                   Inr \<lparr>status_code = 200, content = [], body_json = None\<rparr>,
                   Inr \<lparr>status_code = 404, content = [], body_json = None\<rparr>,
                   Inr \<lparr>status_code = 503, content = [], body_json = None\<rparr>])) =
   [Inr False, Inr True, Inr False]"
  by (simp add: numeral_3_eq_3 check_documentation_exists_def py_defs started_def)

section \<open>The progress query is best effort\<close>

lemma check_backend:
  "backend (snd (check_documentation_exists be fid s)) =
     (case fst (be (backend s) (Get_documentation fid)) of
        Inl e \<Rightarrow> snd (be (backend s) (Get_documentation fid))
      | Inr r \<Rightarrow>
          if status_code r = 200 then snd (be (backend s) (Get_documentation fid))
          else snd (be (snd (be (backend s) (Get_documentation fid))) (Get_status fid)))"
  by (simp add: check_documentation_exists_def py_defs
      split: prod.split sum.split option.split json.split)

lemma check_ui_probe_failed:
  "fst (be (backend s) (Get_documentation fid)) = Inr r \<Longrightarrow> status_code r \<noteq> 200 \<Longrightarrow>
   probe_failed (fst (be (snd (be (backend s) (Get_documentation fid))) (Get_status fid))) \<Longrightarrow>
   ui (snd (check_documentation_exists be fid s)) =
     ui s @ [Ev Write ''Checking if documentation exists for file ID: {}'' [AJson fid],
             Ev Write ''Documentation check status code: {}'' [AInt (status_code r)],
             Ev Write ''Documentation not ready yet. Status: {}'' [AInt (status_code r)]] @
       (case fst (be (snd (be (backend s) (Get_documentation fid))) (Get_status fid)) of
          Inl e \<Rightarrow> [Ev Write ''Could not get processing status: {}'' [AStr (str_exn e)]]
        | Inr p \<Rightarrow>
            if status_code p = 200 then
              [Ev Write ''Could not get processing status: {}''
                 [AStr (case body_json p of None \<Rightarrow> ''json'' | Some other \<Rightarrow> ''get'')]]
            else [])"
proof -
  assume a: "fst (be (backend s) (Get_documentation fid)) = Inr r" "status_code r \<noteq> 200"
    "probe_failed (fst (be (snd (be (backend s) (Get_documentation fid))) (Get_status fid)))"
  obtain b1 where 1: "be (backend s) (Get_documentation fid) = (Inr r, b1)"
    using a(1) by (cases "be (backend s) (Get_documentation fid)") simp
  obtain pout b2 where 2: "be b1 (Get_status fid) = (pout, b2)"
    by (cases "be b1 (Get_status fid)")
  have "probe_failed pout" using a(3) 1 2 by simp
  then show ?thesis
    using 1 2 a(2)
    by (cases pout)
       (auto simp: check_documentation_exists_def py_defs split: option.splits json.splits)
qed

text \<open>
  C7. When the existence check answers with a status other than 200 and the progress query
  to \<^verbatim>\<open>/status/{file_id}\<close> fails (the call raises, the status is not 200, or the body cannot
  be used), \<open>check_documentation_exists\<close> still returns \<^verbatim>\<open>False\<close>, no exception leaves it,
  the session list is untouched, and everything it puts on the page is an informational
  \<^verbatim>\<open>st.write\<close> line, never an error.
\<close>

theorem status_probe_failure_is_swallowed:
  assumes "fst (be (backend s) (Get_documentation fid)) = Inr r" and "status_code r \<noteq> 200"
    and "probe_failed (fst (be (snd (be (backend s) (Get_documentation fid))) (Get_status fid)))"
  shows "fst (check_documentation_exists be fid s) = Inr False
         \<and> uploaded_files (snd (check_documentation_exists be fid s)) = uploaded_files s
         \<and> (\<forall>ev \<in> set (drop (length (ui s)) (ui (snd (check_documentation_exists be fid s)))).
              call_of ev = Write)"
  using assms
  by (simp add: check_result check_files check_ui_probe_failed ok_200_def
      split: sum.split option.split)

theorem status_probe_failure_is_swallowed_witness:
  "fst (check_documentation_exists scripted (JStr ''abc123'')
          (started [Inr \<lparr>status_code = 404, content = [], body_json = None\<rparr>])) = Inr False
   \<and> ui (snd (check_documentation_exists scripted (JStr ''abc123'')
          (started [Inr \<lparr>status_code = 404, content = [], body_json = None\<rparr>]))) =
      [Ev Write ''Checking if documentation exists for file ID: {}'' [AJson (JStr ''abc123'')],
       Ev Write ''Documentation check status code: {}'' [AInt 404],
       Ev Write ''Documentation not ready yet. Status: {}'' [AInt 404],
       Ev Write ''Could not get processing status: {}'' [AStr ''connection refused'']]"
  using status_probe_failure_is_swallowed [of scripted
      "started [Inr \<lparr>status_code = 404, content = [], body_json = None\<rparr>]" "JStr ''abc123''"
      "\<lparr>status_code = 404, content = [], body_json = None\<rparr>"]
  by (simp add: started_def check_ui_probe_failed)

section \<open>A ready record with an unusable PDF\<close>

lemma check_ui_ok:
  "ok_200 (fst (be (backend s) (Get_documentation fid))) \<Longrightarrow>
   ui (snd (check_documentation_exists be fid s)) =
     ui s @ [Ev Write ''Checking if documentation exists for file ID: {}'' [AJson fid],
             Ev Write ''Documentation check status code: {}'' [AInt 200],
             Ev Write ''Documentation exists!'' []]"
  by (cases "be (backend s) (Get_documentation fid)")
     (auto simp: ok_200_def check_documentation_exists_def py_defs split: sum.splits)

text \<open>
  C10. For a record whose existence check answers 200, when \<^verbatim>\<open>/download\<close> answers 200 with
  a body of length zero, \<open>get_pdf_content\<close> returns the empty byte string, and the render
  of that record ends with the warning that the PDF content is not available, with no
  download button and no preview; the page is exactly the one produced when the fetch
  fails (the second backend \<open>be'\<close>).
\<close>

theorem empty_pdf_is_unavailable:
  assumes "be (backend s) (Get_documentation (r_file_id fi)) = (Inr rd, bd)"
    and "status_code rd = 200"
    and "be bd (Get_download (r_file_id fi) ''pdf'') = (Inr rp, bp)"
    and "status_code rp = 200" and "content rp = []"
    and "be' (backend s) (Get_documentation (r_file_id fi)) = (Inr rd', bd')"
    and "status_code rd' = 200"
    and "\<not> ok_200 (fst (be' bd' (Get_download (r_file_id fi) ''pdf'')))"
  shows "fst (get_pdf_content be (r_file_id fi)
               (snd (check_documentation_exists be (r_file_id fi) s))) = Inr (Some [])
         \<and> ui (snd (render_file be fi s)) =
             ui s @ [Ev Subheader ''File: {}'' [AStr (r_filename fi)],
                     Ev Markdown ''File ID: `{}`'' [AJson (r_file_id fi)],
                     Ev Write ''Checking if documentation exists for file ID: {}''
                       [AJson (r_file_id fi)],
                     Ev Write ''Documentation check status code: {}'' [AInt 200],
                     Ev Write ''Documentation exists!'' [],
                     Ev Warning ''PDF content not available. Try refreshing.'' []]
         \<and> ui (snd (render_file be' fi s)) = ui (snd (render_file be fi s))"
proof -
  have 1: "fst (get_pdf_content be (r_file_id fi)
               (snd (check_documentation_exists be (r_file_id fi) s))) = Inr (Some [])"
    using assms(1-5) by (simp add: pdf_result check_backend)
  have 2: "ui (snd (render_file be fi s)) =
             ui s @ [Ev Subheader ''File: {}'' [AStr (r_filename fi)],
                     Ev Markdown ''File ID: `{}`'' [AJson (r_file_id fi)],
                     Ev Write ''Checking if documentation exists for file ID: {}''
                       [AJson (r_file_id fi)],
                     Ev Write ''Documentation check status code: {}'' [AInt 200],
                     Ev Write ''Documentation exists!'' [],
                     Ev Warning ''PDF content not available. Try refreshing.'' []]"
    using assms(1-5)
    by (simp add: render_file_def run_defs check_result check_backend check_ui_ok pdf_result
          pdf_ui pdf_not_available_def ok_200_def)
  have 3: "ui (snd (render_file be' fi s)) =
             ui s @ [Ev Subheader ''File: {}'' [AStr (r_filename fi)],
                     Ev Markdown ''File ID: `{}`'' [AJson (r_file_id fi)],
                     Ev Write ''Checking if documentation exists for file ID: {}''
                       [AJson (r_file_id fi)],
                     Ev Write ''Documentation check status code: {}'' [AInt 200],
                     Ev Write ''Documentation exists!'' [],
                     Ev Warning ''PDF content not available. Try refreshing.'' []]"
  proof (cases "be' bd' (Get_download (r_file_id fi) ''pdf'')")
    case (Pair dout bp')
    with assms(8) have "\<not> ok_200 dout" by simp
    then show ?thesis
      using assms(6,7) Pair
      by (cases dout)
         (simp_all add: render_file_def run_defs check_result check_backend check_ui_ok
            pdf_result pdf_ui pdf_not_available_def ok_200_def)
  qed
  show ?thesis using 1 2 3 by simp
qed

theorem empty_pdf_is_unavailable_witness:
  "ui (snd (render_file scripted demo_record
        (started [Inr \<lparr>status_code = 200, content = [], body_json = None\<rparr>,
                  Inr \<lparr>status_code = 200, content = [], body_json = None\<rparr>]))) =
     [Ev Subheader ''File: {}'' [AStr ''demo.mp3''],
      Ev Markdown ''File ID: `{}`'' [AJson (JStr ''abc123'')],
      Ev Write ''Checking if documentation exists for file ID: {}'' [AJson (JStr ''abc123'')],
      Ev Write ''Documentation check status code: {}'' [AInt 200],
      Ev Write ''Documentation exists!'' [],
      Ev Warning ''PDF content not available. Try refreshing.'' []]
   \<and> ui (snd (render_file (\<lambda>b rq. scripted (take 1 b) rq) demo_record
        (started [Inr \<lparr>status_code = 200, content = [], body_json = None\<rparr>,
                  Inr \<lparr>status_code = 200, content = [], body_json = None\<rparr>]))) =
     ui (snd (render_file scripted demo_record
        (started [Inr \<lparr>status_code = 200, content = [], body_json = None\<rparr>,
                  Inr \<lparr>status_code = 200, content = [], body_json = None\<rparr>])))"
  using empty_pdf_is_unavailable [where be = scripted and fi = demo_record
      and s = "started [Inr \<lparr>status_code = 200, content = [], body_json = None\<rparr>,
                  Inr \<lparr>status_code = 200, content = [], body_json = None\<rparr>]"
      and rd = "\<lparr>status_code = 200, content = [], body_json = None\<rparr>"
      and bd = "[Inr \<lparr>status_code = 200, content = [], body_json = None\<rparr>]"
      and rp = "\<lparr>status_code = 200, content = [], body_json = None\<rparr>"
      and bp = "[]"
      and be' = "\<lambda>b rq. scripted (take 1 b) rq"
      and rd' = "\<lparr>status_code = 200, content = [], body_json = None\<rparr>"
      and bd' = "[]"]
  by (simp add: started_def demo_record_def ok_200_def)

section \<open>The session list only grows\<close>

lemma st_then: "py_then (st c t a) k s = k (s\<lparr>ui := ui s @ [Ev c t a]\<rparr>)"
  by (simp add: py_then_def py_bind_def st_def)

lemma bind_lift:
  "py_bind (py_lift x) f s = (case x of Inl e \<Rightarrow> (Inl e, s) | Inr v \<Rightarrow> f v s)"
  by (simp add: py_bind_def py_lift_def split: sum.split)

lemma bind_get_files:
  "py_bind get_uploaded_files f s =
     (case uploaded_files s of
        None \<Rightarrow> (Inl (AttributeError ''uploaded_files''), s)
      | Some files \<Rightarrow> f files s)"
  by (simp add: py_bind_def get_uploaded_files_def split: option.split)

lemma bind_check:
  "py_bind (check_documentation_exists be fid) f s =
     f (ok_200 (fst (be (backend s) (Get_documentation fid))))
       (snd (check_documentation_exists be fid s))"
  by (simp add: py_bind_fst_snd check_result)

lemma bind_pdf:
  "py_bind (get_pdf_content be fid) f s =
     f (case fst (be (backend s) (Get_download fid ''pdf'')) of
          Inl e \<Rightarrow> None
        | Inr r \<Rightarrow> if status_code r = 200 then Some (content r) else None)
       (snd (get_pdf_content be fid s))"
  by (simp add: py_bind_fst_snd pdf_result)

lemmas step_rules = st_then bind_lift bind_get_files bind_check bind_pdf st_def py_return_def
  create_download_button_def display_pdf_def pdf_not_available_def

lemma render_file_total: "fst (render_file be fi s) = Inr ()"
  by (simp add: render_file_def step_rules split: option.split sum.split)

lemma render_file_files: "uploaded_files (snd (render_file be fi s)) = uploaded_files s"
  by (simp add: render_file_def step_rules check_files pdf_files split: option.split sum.split)

lemma render_file_checks:
  "map fst (documentation_checks (exchanges (snd (render_file be fi s)))) =
     map fst (documentation_checks (exchanges s)) @ [r_file_id fi]"
  by (simp add: render_file_def step_rules check_exchanges pdf_exchanges
      documentation_checks_append split: option.split sum.split)

lemma bind_upload:
  "py_bind (upload_and_process_file be f dt dl) g s =
     g (case fst (be (backend s) (Post_upload f dt dl)) of
            Inl e \<Rightarrow> JNull
          | Inr resp \<Rightarrow>
              if status_code resp = 200 then
                (case body_json resp of
                   Some (JObj kvs) \<Rightarrow>
                     (case map_of kvs ''success'' of
                        Some v \<Rightarrow> if truthy v then JObj kvs else JNull
                      | None \<Rightarrow> JNull)
                 | _ \<Rightarrow> JNull)
              else JNull)
       (snd (upload_and_process_file be f dt dl s))"
  by (simp add: py_bind_fst_snd upload_result)

lemma then_append:
  "py_then (append_uploaded_file r) k s =
     (case uploaded_files s of
        None \<Rightarrow> (Inl (AttributeError ''uploaded_files''), s)
      | Some files \<Rightarrow> k (s\<lparr>uploaded_files := Some (files @ [r])\<rparr>))"
  by (simp add: py_then_def py_bind_def append_uploaded_file_def get_uploaded_files_def
      split: option.split)

lemma appended_refl: "appended xs xs"
  by (simp add: appended_def)

lemma keep_then_appended:
  assumes "\<And>s. files_of (snd (m s)) = files_of s"
    and "\<And>s. appended (files_of s) (files_of (snd (k s)))"
  shows "appended (files_of s) (files_of (snd (py_then m k s)))"
proof (cases "fst (m s)")
  case (Inl e)
  then show ?thesis
    by (simp add: py_then_def py_bind_fst_snd assms(1) appended_refl)
next
  case (Inr v)
  have "appended (files_of (snd (m s))) (files_of (snd (k (snd (m s)))))" by (rule assms(2))
  then show ?thesis
    using Inr by (simp add: py_then_def py_bind_fst_snd assms(1))
qed

lemma appended_then_keep:
  assumes "\<And>s. appended (files_of s) (files_of (snd (m s)))"
    and "\<And>s. files_of (snd (k s)) = files_of s"
  shows "appended (files_of s) (files_of (snd (py_then m k s)))"
proof (cases "fst (m s)")
  case (Inl e)
  then show ?thesis
    by (simp add: py_then_def py_bind_fst_snd assms(1))
next
  case (Inr v)
  then show ?thesis
    by (simp add: py_then_def py_bind_fst_snd assms)
qed

lemma st_keeps: "files_of (snd (st c t a s)) = files_of s"
  by (simp add: st_def files_of_def)

lemma init_keeps: "files_of (snd (init_session_state s)) = files_of s"
  by (simp add: init_session_state_def files_of_def split: option.split)

lemma sidebar_keeps: "files_of (snd (sidebar inp s)) = files_of s"
  by (simp add: sidebar_def step_rules files_of_def
      split: option.split doc_type_option.split doc_level_option.split)

lemma button_appended:
  "appended (files_of s) (files_of (snd (process_file_button be inp s)))"
  by (simp add: process_file_button_def step_rules bind_upload then_append
      upload_files files_of_def appended_def
      split: option.split sum.split json.split)

lemma render_files_step:
  "render_files be (fi # rest) s = render_files be rest (snd (render_file be fi s))"
  by (simp add: py_then_def py_bind_fst_snd render_file_total)

lemma render_files_total: "fst (render_files be files s) = Inr ()"
proof (induction files arbitrary: s)
  case Nil
  show ?case by (simp add: py_return_def)
next
  case (Cons fi rest)
  show ?case unfolding render_files_step by (rule Cons.IH)
qed

lemma render_files_files: "uploaded_files (snd (render_files be files s)) = uploaded_files s"
proof (induction files arbitrary: s)
  case Nil
  show ?case by (simp add: py_return_def)
next
  case (Cons fi rest)
  show ?case unfolding render_files_step by (simp only: Cons.IH render_file_files)
qed

lemma render_files_checks:
  "map fst (documentation_checks (exchanges (snd (render_files be files s)))) =
     map fst (documentation_checks (exchanges s)) @ map r_file_id files"
proof (induction files arbitrary: s)
  case Nil
  show ?case by (simp add: py_return_def)
next
  case (Cons fi rest)
  show ?case
    unfolding render_files_step by (simp only: Cons.IH render_file_checks append_assoc
        list.map append_Cons append_Nil)
qed

lemma then_return: "py_then (py_return v) k s = k s"
  by (simp add: py_then_def py_bind_def py_return_def)

lemma then_rerun: "py_then experimental_rerun k s = (Inl RerunException, s)"
  by (simp add: py_then_def py_bind_def experimental_rerun_def)

lemma documentation_keeps:
  "files_of (snd (generated_documentation be inp s)) = files_of s"
  by (simp add: generated_documentation_def step_rules then_return then_rerun files_of_def
      render_files_files split: option.split)

lemma script_appended:
  "appended (files_of s) (files_of (snd (script be inp s)))"
  unfolding script_def
  by (intro keep_then_appended appended_then_keep st_keeps init_keeps sidebar_keeps
        button_appended documentation_keeps)

lemma session_grows: "prefix (files_of s) (files_of (session be inps s))"
proof (induction inps arbitrary: s)
  case Nil
  show ?case by simp
next
  case (Cons inp inps)
  have "prefix (files_of s) (files_of (snd (script be inp s)))"
    using script_appended [of s be inp] by (simp add: appended_def)
  also have "prefix (files_of (snd (script be inp s)))
               (files_of (session be inps (snd (script be inp s))))"
    by (rule Cons.IH)
  finally show ?case by simp
qed

lemma documentation_checks_of_run:
  "map fst (documentation_checks (exchanges (snd (generated_documentation be inp s)))) =
     map fst (documentation_checks (exchanges s)) @
       (if refresh_clicked inp then [] else map r_file_id (files_of s))"
  by (simp add: generated_documentation_def step_rules then_return then_rerun files_of_def
      render_files_checks split: option.split)

lemma then_init: "py_then init_session_state k s = k (snd (init_session_state s))"
  by (simp add: py_then_def py_bind_def init_session_state_def split: option.split)

lemma init_exchanges: "exchanges (snd (init_session_state s)) = exchanges s"
  by (simp add: init_session_state_def split: option.split)

lemma init_some: "uploaded_files (snd (init_session_state s)) \<noteq> None"
  by (simp add: init_session_state_def split: option.split)

lemma sidebar_total: "fst (sidebar inp s) = Inr ()"
  by (simp add: sidebar_def step_rules
      split: option.split doc_type_option.split doc_level_option.split)

lemma sidebar_files: "uploaded_files (snd (sidebar inp s)) = uploaded_files s"
  by (simp add: sidebar_def step_rules
      split: option.split doc_type_option.split doc_level_option.split)

lemma sidebar_exchanges: "exchanges (snd (sidebar inp s)) = exchanges s"
  by (simp add: sidebar_def step_rules
      split: option.split doc_type_option.split doc_level_option.split)

lemma then_sidebar: "py_then (sidebar inp) k s = k (snd (sidebar inp s))"
  by (simp add: py_then_def py_bind_fst_snd sidebar_total)

lemma button_total:
  "uploaded_files s \<noteq> None \<Longrightarrow> fst (process_file_button be inp s) = Inr ()"
  by (auto simp add: process_file_button_def step_rules bind_upload then_append upload_files
      split: option.split sum.split json.split)

lemma then_button:
  "uploaded_files s \<noteq> None \<Longrightarrow>
   py_then (process_file_button be inp) k s = k (snd (process_file_button be inp s))"
  by (simp add: py_then_def py_bind_fst_snd button_total)

lemma button_checks:
  "documentation_checks (exchanges (snd (process_file_button be inp s))) =
     documentation_checks (exchanges s)"
  by (simp add: button_exchanges documentation_checks_append split: option.split)

lemma files_of_ui: "files_of (s\<lparr>ui := u\<rparr>) = files_of s"
  by (simp add: files_of_def)

lemma script_run:
  "script be inp s =
     generated_documentation be inp
       (snd (process_file_button be inp
          (snd (sidebar inp
             ((snd (init_session_state
                 (s\<lparr>ui := ui s @ [Ev Markdown ''<style>...</style>'' []]\<rparr>)))
              \<lparr>ui := ui (snd (init_session_state
                     (s\<lparr>ui := ui s @ [Ev Markdown ''<style>...</style>'' []]\<rparr>))) @
                   [Ev Title ''CrewAI Project Documentation Generator'' []] @
                   [Ev Markdown ''---'' []]\<rparr>)))))"
  by (simp add: script_def st_then then_init then_sidebar then_button sidebar_files init_some)

lemma script_checks:
  "map fst (documentation_checks (exchanges (snd (script be inp s)))) =
     map fst (documentation_checks (exchanges s)) @
       (if refresh_clicked inp then [] else map r_file_id (files_of (snd (script be inp s))))"
  unfolding script_run
  by (simp add: documentation_checks_of_run documentation_keeps button_checks
        sidebar_exchanges init_exchanges)

text \<open>
  C8. The session list is append-only. Over any sequence of runs of the script the list at
  the start is a prefix of the list at the end; a single run keeps every earlier record
  where it was and adds at most one record, at the end; \<open>upload_and_process_file\<close>,
  \<open>check_documentation_exists\<close>, \<open>get_pdf_content\<close> and the render loop leave the list as
  it is. The list is iterated in its order, oldest first: the render loop adds to the
  transcript one existence check per record, in list order; the Generated Documentation
  section of the script runs that loop over the session list itself (and over nothing when
  Refresh Status was clicked and the run stops for a rerun); and a whole run of the script
  checks exactly the ids of the session list it ends with, the record appended in that run
  last.
\<close>

theorem session_list_is_append_only:
  "prefix (files_of s) (files_of (session be inps s))
   \<and> prefix (files_of s) (files_of (snd (script be inp s)))
   \<and> length (files_of (snd (script be inp s))) \<le> Suc (length (files_of s))
   \<and> uploaded_files (snd (upload_and_process_file be f dt dl s)) = uploaded_files s
   \<and> uploaded_files (snd (check_documentation_exists be fid s)) = uploaded_files s
   \<and> uploaded_files (snd (get_pdf_content be fid s)) = uploaded_files s
   \<and> uploaded_files (snd (render_files be files s)) = uploaded_files s
   \<and> map fst (documentation_checks (exchanges (snd (render_files be files s)))) =
       map fst (documentation_checks (exchanges s)) @ map r_file_id files
   \<and> map fst (documentation_checks (exchanges (snd (generated_documentation be inp s)))) =
       map fst (documentation_checks (exchanges s)) @
         (if refresh_clicked inp then [] else map r_file_id (files_of s))
   \<and> map fst (documentation_checks (exchanges (snd (script be inp s)))) =
       map fst (documentation_checks (exchanges s)) @
         (if refresh_clicked inp then [] else map r_file_id (files_of (snd (script be inp s))))"
proof -
  have "prefix (files_of s) (files_of (snd (script be inp s)))"
    "length (files_of (snd (script be inp s))) \<le> Suc (length (files_of s))"
    using script_appended [of s be inp] by (simp_all add: appended_def)
  moreover note script_checks [of be inp s] documentation_checks_of_run [of be inp s]
  ultimately show ?thesis
    by (simp only: session_grows upload_files check_files pdf_files render_files_files
          render_files_checks simp_thms)
qed

end
